theory Spec2Isabelle
  imports Main
begin

section \<open>JavaScript values\<close>

text \<open>
  The script \<^verbatim>\<open>webapp/static/js/telegram_auth.js\<close> is dynamically typed: every guard
  it evaluates is a truthiness test, and every property read may fail. Values are therefore
  modelled as one datatype. A string is the list of its code units (code units below 256);
  a number is an integer (the only numbers the script computes are string lengths); an
  object is the list of its own enumerable data properties in creation order, each key
  once; a function is a host function that returns, given by its declared arity and the
  value a call returns; an error object is given by its name and message.
\<close>

datatype jsval =
    JUndefined
  | JNull
  | JBool bool
  | JNum int
  | JStr string
  | JObj "(string \<times> jsval) list"
  | JFun nat jsval
  | JErr string string

type_synonym props = "(string \<times> jsval) list"

text \<open>Exceptions the language itself raises while the synchronous part runs.\<close>

datatype exn = TypeError | ReferenceError

text \<open>\<^verbatim>\<open>!v\<close> is \<open>\<not> truthy v\<close> (the language's ToBoolean).\<close>

fun truthy :: "jsval \<Rightarrow> bool" where
  "truthy JUndefined = False"
| "truthy JNull = False"
| "truthy (JBool b) = b"
| "truthy (JNum n) = (n \<noteq> 0)"
| "truthy (JStr s) = (s \<noteq> [])"
| "truthy (JObj ps) = True"
| "truthy (JFun n r) = True"
| "truthy (JErr n m) = True"

text \<open>
  \<^verbatim>\<open>v.k\<close>: reading a property of \<^verbatim>\<open>undefined\<close> or \<^verbatim>\<open>null\<close> throws a TypeError; a missing
  property reads as \<^verbatim>\<open>undefined\<close>. Prototype members are not represented, which is exact
  for the property names the script reads (\<^verbatim>\<open>Telegram\<close>, \<^verbatim>\<open>WebApp\<close>, \<^verbatim>\<open>ready\<close>,
  \<^verbatim>\<open>initData\<close>, \<^verbatim>\<open>length\<close>).
\<close>

definition own_prop :: "props \<Rightarrow> string \<Rightarrow> jsval" where
  "own_prop ps k = (case map_of ps k of None \<Rightarrow> JUndefined | Some v \<Rightarrow> v)"

fun get_prop :: "jsval \<Rightarrow> string \<Rightarrow> exn + jsval" where
  "get_prop JUndefined k = Inl TypeError"
| "get_prop JNull k = Inl TypeError"
| "get_prop (JObj ps) k = Inr (own_prop ps k)"
| "get_prop (JStr s) k = Inr (if k = ''length'' then JNum (int (length s)) else JUndefined)"
| "get_prop (JFun n r) k = Inr (if k = ''length'' then JNum (int n) else JUndefined)"
| "get_prop (JBool b) k = Inr JUndefined"
| "get_prop (JNum n) k = Inr JUndefined"
| "get_prop (JErr n m) k = Inr JUndefined"

text \<open>
  A bare identifier such as \<^verbatim>\<open>Telegram\<close> is looked up in the global object; an identifier
  that is not a property of it throws a ReferenceError.
\<close>

definition lookup_global :: "props \<Rightarrow> string \<Rightarrow> exn + jsval" where
  "lookup_global w k = (case map_of w k of None \<Rightarrow> Inl ReferenceError | Some v \<Rightarrow> Inr v)"

text \<open>\<^verbatim>\<open>v === n\<close> for a number literal \<open>n\<close>: true exactly for the number \<open>n\<close>.\<close>

definition strict_eq_num :: "jsval \<Rightarrow> int \<Rightarrow> bool" where
  "strict_eq_num v n = (v = JNum n)"

text \<open>\<^verbatim>\<open>v.k()\<close>: a TypeError unless the property holds a function; the call's value otherwise.\<close>

definition call_method :: "jsval \<Rightarrow> string \<Rightarrow> exn + jsval" where
  "call_method v k =
     (case get_prop v k of
        Inl e \<Rightarrow> Inl e
      | Inr f \<Rightarrow> (case f of JFun n r \<Rightarrow> Inr r | _ \<Rightarrow> Inl TypeError))"

section \<open>\<^verbatim>\<open>JSON.stringify\<close>\<close>

definition hex_digit :: "nat \<Rightarrow> char" where
  "hex_digit n = (if n < 10 then char_of (48 + n) else char_of (87 + n))"

text \<open>
  One code unit inside a JSON string: the short escapes, \<^verbatim>\<open>\u00XX\<close> (lower-case hex) for
  the other control characters, the code unit itself otherwise.
\<close>

definition quote_char :: "char \<Rightarrow> string" where
  "quote_char c =
     (if c = CHR 0x08 then [CHR 0x5C, CHR ''b'']
      else if c = CHR 0x09 then [CHR 0x5C, CHR ''t'']
      else if c = CHR 0x0A then [CHR 0x5C, CHR ''n'']
      else if c = CHR 0x0C then [CHR 0x5C, CHR ''f'']
      else if c = CHR 0x0D then [CHR 0x5C, CHR ''r'']
      else if c = CHR 0x22 then [CHR 0x5C, CHR 0x22]
      else if c = CHR 0x5C then [CHR 0x5C, CHR 0x5C]
      else if (of_char c :: nat) < 32
        then [CHR 0x5C, CHR ''u'', CHR ''0'', CHR ''0'',
              hex_digit (of_char c div 16), hex_digit (of_char c mod 16)]
      else [c])"

definition quote_json :: "string \<Rightarrow> string" where
  "quote_json s = CHR 0x22 # concat (map quote_char s) @ [CHR 0x22]"

fun digits :: "nat \<Rightarrow> string" where
  "digits n = (if n < 10 then [char_of (48 + n)] else digits (n div 10) @ [char_of (48 + n mod 10)])"

definition number_to_string :: "int \<Rightarrow> string" where
  "number_to_string i = (if i < 0 then CHR ''-'' # digits (nat (- i)) else digits (nat i))"

fun join_commas :: "string list \<Rightarrow> string" where
  "join_commas [] = []"
| "join_commas [s] = s"
| "join_commas (s # t # ss) = s @ CHR '','' # join_commas (t # ss)"

text \<open>
  The serialisation of a value, \<open>None\<close> where \<^verbatim>\<open>JSON.stringify\<close> yields \<^verbatim>\<open>undefined\<close>
  (for \<^verbatim>\<open>undefined\<close> and for functions); a member whose value has no serialisation is
  left out of its object. An error object has no enumerable property of its own.
\<close>

fun serialize :: "jsval \<Rightarrow> string option"
  and serialize_members :: "(string \<times> jsval) list \<Rightarrow> string list" where
  "serialize JUndefined = None"
| "serialize JNull = Some ''null''"
| "serialize (JBool b) = Some (if b then ''true'' else ''false'')"
| "serialize (JNum n) = Some (number_to_string n)"
| "serialize (JStr s) = Some (quote_json s)"
| "serialize (JObj ps) = Some (CHR ''{'' # join_commas (serialize_members ps) @ ''}'')"
| "serialize (JFun n r) = None"
| "serialize (JErr n m) = Some ''{}''"
| "serialize_members [] = []"
| "serialize_members ((k, v) # ps) =
     (case serialize v of
        None \<Rightarrow> serialize_members ps
      | Some s \<Rightarrow> (quote_json k @ CHR '':'' # s) # serialize_members ps)"

definition JSON_stringify :: "jsval \<Rightarrow> jsval" where
  "JSON_stringify v = (case serialize v of None \<Rightarrow> JUndefined | Some s \<Rightarrow> JStr s)"

section \<open>The host: console, bridge, network\<close>

text \<open>The argument of \<^verbatim>\<open>fetch\<close>: the URL and the fields of the init dictionary.\<close>

record request =
  url :: string
  http_method :: string
  headers :: "(string \<times> string) list"
  credentials :: string
  body :: jsval

text \<open>
  What a page script can do to its host, in the order it does it. The script under
  study contains console calls, one bridge call and one \<^verbatim>\<open>fetch\<close>; the last three
  kinds (a change to the document, an assignment to a property of the bridge, a read or
  write of \<^verbatim>\<open>document.cookie\<close>) are what its specification rules out.
\<close>

datatype effect =
    ConsoleWarn "jsval list"
  | ConsoleLog "jsval list"
  | ConsoleError "jsval list"
  | ReadyCall
  | Fetch request
  | DomMutation
  | BridgeWrite string jsval
  | CookieAccess

text \<open>A received response: its status and its body, delivered in full.\<close>

record response =
  status :: nat
  body_text :: string

text \<open>The state a promise settles in.\<close>

datatype 'a settled = Fulfilled 'a | Rejected jsval

text \<open>
  The parts of the platform whose behaviour is an input of the script: how the network
  answers a request (a response, or a rejection with the platform's error value), and the
  platform's JSON parser (\<open>Inl\<close> the SyntaxError it throws, \<open>Inr\<close> the parsed value).
\<close>

record platform =
  network :: "request \<Rightarrow> response settled"
  JSON_parse :: "string \<Rightarrow> jsval + jsval"

text \<open>\<^verbatim>\<open>resp.ok\<close>, \<^verbatim>\<open>resp.text()\<close> and \<^verbatim>\<open>resp.json()\<close>.\<close>

definition ok :: "response \<Rightarrow> bool" where
  "ok resp = (200 \<le> status resp \<and> status resp \<le> 299)"

definition text_of :: "response \<Rightarrow> string settled" where
  "text_of resp = Fulfilled (body_text resp)"

definition json_of :: "platform \<Rightarrow> response \<Rightarrow> jsval settled" where
  "json_of p resp =
     (case JSON_parse p (body_text resp) of Inl e \<Rightarrow> Rejected e | Inr v \<Rightarrow> Fulfilled v)"

text \<open>
  A promise in this model is the effects performed until it settled, and its settled state.
  \<^verbatim>\<open>.then(f)\<close> runs \<open>f\<close> on a fulfilment value and passes a rejection on; \<^verbatim>\<open>.catch(f)\<close> runs
  \<open>f\<close> on a rejection and passes a fulfilment on. The new promise settles as the handler
  does.
\<close>

definition promise_then ::
  "effect list \<times> 'a settled \<Rightarrow> ('a \<Rightarrow> effect list \<times> 'b settled) \<Rightarrow> effect list \<times> 'b settled" where
  "promise_then pr f =
     (case snd pr of
        Fulfilled v \<Rightarrow> (fst pr @ fst (f v), snd (f v))
      | Rejected e \<Rightarrow> (fst pr, Rejected e))"

definition promise_catch ::
  "effect list \<times> 'a settled \<Rightarrow> (jsval \<Rightarrow> effect list \<times> 'a settled) \<Rightarrow> effect list \<times> 'a settled" where
  "promise_catch pr f =
     (case snd pr of
        Fulfilled v \<Rightarrow> (fst pr, Fulfilled v)
      | Rejected e \<Rightarrow> (fst pr @ fst (f e), snd (f e)))"

definition fetch :: "platform \<Rightarrow> request \<Rightarrow> effect list \<times> response settled" where
  "fetch p req = ([Fetch req], network p req)"

section \<open>The script\<close>

text \<open>The guard \<^verbatim>\<open>!window.Telegram || !Telegram.WebApp\<close>, evaluated left to right.\<close>

definition api_not_found :: "props \<Rightarrow> exn + bool" where
  "api_not_found w =
     (case get_prop (JObj w) ''Telegram'' of
        Inl e \<Rightarrow> Inl e
      | Inr t \<Rightarrow>
          if \<not> truthy t then Inr True
          else (case lookup_global w ''Telegram'' of
                  Inl e \<Rightarrow> Inl e
                | Inr T \<Rightarrow>
                    (case get_prop T ''WebApp'' of
                       Inl e \<Rightarrow> Inl e
                     | Inr wa \<Rightarrow> Inr (\<not> truthy wa))))"

text \<open>\<^verbatim>\<open>const tg = Telegram.WebApp\<close>.\<close>

definition web_app :: "props \<Rightarrow> exn + jsval" where
  "web_app w =
     (case lookup_global w ''Telegram'' of
        Inl e \<Rightarrow> Inl e
      | Inr T \<Rightarrow> get_prop T ''WebApp'')"

text \<open>The guard \<^verbatim>\<open>!tg.initData || tg.initData.length === 0\<close>, evaluated left to right.\<close>

definition no_init_data :: "jsval \<Rightarrow> exn + bool" where
  "no_init_data tg =
     (case get_prop tg ''initData'' of
        Inl e \<Rightarrow> Inl e
      | Inr d \<Rightarrow>
          if \<not> truthy d then Inr True
          else (case get_prop tg ''initData'' of
                  Inl e \<Rightarrow> Inl e
                | Inr d' \<Rightarrow>
                    (case get_prop d' ''length'' of
                       Inl e \<Rightarrow> Inl e
                     | Inr l \<Rightarrow> Inr (strict_eq_num l 0))))"

text \<open>
  The arguments of the \<^verbatim>\<open>fetch\<close> call: the request built for the value \<open>d\<close> of
  \<^verbatim>\<open>tg.initData\<close>, and the evaluation of the argument list.
\<close>

definition post_request :: "jsval \<Rightarrow> request" where
  "post_request d =
     \<lparr>url = ''/api/v1/auth/telegram-webapp'',
      http_method = ''POST'',
      headers = [(''Content-Type'', ''application/json'')],
      credentials = ''include'',
      body = JSON_stringify (JObj [(''init_data'', d)])\<rparr>"

definition auth_request :: "jsval \<Rightarrow> exn + request" where
  "auth_request tg =
     (case get_prop tg ''initData'' of
        Inl e \<Rightarrow> Inl e
      | Inr d \<Rightarrow> Inr (post_request d))"

text \<open>
  The three handlers of the chain, in the order the source attaches them: the first
  \<^verbatim>\<open>then\<close> (an async function: a \<^verbatim>\<open>throw\<close> rejects its promise, and the promise returned by
  \<^verbatim>\<open>resp.json()\<close> decides it otherwise), the second \<^verbatim>\<open>then\<close>, and the \<^verbatim>\<open>catch\<close>.
\<close>

definition on_response :: "platform \<Rightarrow> response \<Rightarrow> effect list \<times> jsval settled" where
  "on_response p resp =
     (if \<not> ok resp then
        (case text_of resp of
           Fulfilled txt \<Rightarrow> ([], Rejected (JErr ''Error'' txt))
         | Rejected e \<Rightarrow> ([], Rejected e))
      else ([], json_of p resp))"

definition on_data :: "jsval \<Rightarrow> effect list \<times> jsval settled" where
  "on_data data = ([ConsoleLog [JStr ''Telegram auth OK'', data]], Fulfilled JUndefined)"

definition on_error :: "jsval \<Rightarrow> effect list \<times> jsval settled" where
  "on_error err = ([ConsoleError [JStr ''Telegram auth failed'', err]], Fulfilled JUndefined)"

definition auth_chain :: "platform \<Rightarrow> request \<Rightarrow> effect list \<times> jsval settled" where
  "auth_chain p req =
     promise_catch (promise_then (promise_then (fetch p req) (on_response p)) on_data) on_error"

text \<open>How the function body ends: by returning, or by an exception nothing catches.\<close>

datatype completion = Returned | Uncaught exn

text \<open>
  The immediately invoked function, run in a browser whose global object has the
  properties \<open>w\<close>, together with the callbacks of the promise chain it starts: the effects
  in the order they happen, and how the function body ended.
\<close>

definition telegram_auth :: "platform \<Rightarrow> props \<Rightarrow> effect list \<times> completion" where
  "telegram_auth p w =
     (case api_not_found w of
        Inl e \<Rightarrow> ([], Uncaught e)
      | Inr True \<Rightarrow> ([ConsoleWarn [JStr ''Telegram WebApp API not found'']], Returned)
      | Inr False \<Rightarrow>
          (case web_app w of
             Inl e \<Rightarrow> ([], Uncaught e)
           | Inr tg \<Rightarrow>
               (case call_method tg ''ready'' of
                  Inl e \<Rightarrow> ([], Uncaught e)
                | Inr _ \<Rightarrow>
                    (case no_init_data tg of
                       Inl e \<Rightarrow> ([ReadyCall], Uncaught e)
                     | Inr True \<Rightarrow>
                         ([ReadyCall, ConsoleWarn [JStr ''No initData from Telegram'']], Returned)
                     | Inr False \<Rightarrow>
                         (case auth_request tg of
                            Inl e \<Rightarrow> ([ReadyCall], Uncaught e)
                          | Inr req \<Rightarrow> (ReadyCall # fst (auth_chain p req), Returned))))))"

section \<open>Page loads\<close>

text \<open>
  What outlives one run of the script: the global object, which every script of the page
  shares and may assign to, and the record of the effects performed so far. The script
  declares no variable outside its function body and contains no assignment, so a run
  leaves the global object as it found it and appends its effects.
\<close>

record browser =
  global_object :: props
  performed :: "effect list"

definition page_load :: "platform \<Rightarrow> browser \<Rightarrow> completion \<times> browser" where
  "page_load p b =
     (let r = telegram_auth p (global_object b)
      in (snd r, b\<lparr>performed := performed b @ fst r\<rparr>))"

section \<open>Vocabulary of the specification\<close>

text \<open>
  The host bridge object: the value at \<^verbatim>\<open>window.Telegram.WebApp\<close> where that path
  exists, \<^verbatim>\<open>undefined\<close> where the global or the field is missing.
\<close>

definition host_bridge :: "props \<Rightarrow> jsval" where
  "host_bridge w =
     (case map_of w ''Telegram'' of
        Some (JObj t) \<Rightarrow> own_prop t ''WebApp''
      | _ \<Rightarrow> JUndefined)"

definition callable :: "jsval \<Rightarrow> bool" where
  "callable f = (case f of JFun n r \<Rightarrow> True | _ \<Rightarrow> False)"

text \<open>The outcome of the second guard for an \<^verbatim>\<open>initData\<close> value \<open>d\<close>.\<close>

definition empty_payload :: "jsval \<Rightarrow> bool" where
  "empty_payload d = (\<not> truthy d \<or> get_prop d ''length'' = Inr (JNum 0))"

fun is_fetch :: "effect \<Rightarrow> bool" where
  "is_fetch (Fetch r) = True"
| "is_fetch _ = False"

fun is_console :: "effect \<Rightarrow> bool" where
  "is_console (ConsoleWarn a) = True"
| "is_console (ConsoleLog a) = True"
| "is_console (ConsoleError a) = True"
| "is_console _ = False"

definition network_or_console :: "effect \<Rightarrow> bool" where
  "network_or_console e = (is_fetch e \<or> is_console e)"

definition ready_network_or_console :: "effect \<Rightarrow> bool" where
  "ready_network_or_console e = (e = ReadyCall \<or> is_fetch e \<or> is_console e)"

text \<open>A code unit that \<^verbatim>\<open>JSON.stringify\<close> copies unchanged into a JSON string.\<close>

definition plain_char :: "char \<Rightarrow> bool" where
  "plain_char c = ((32::nat) \<le> of_char c \<and> c \<noteq> CHR 0x22 \<and> c \<noteq> CHR 0x5C)"

section \<open>Test doubles\<close>

text \<open>
  A global object whose bridge has the given \<^verbatim>\<open>ready\<close> and \<^verbatim>\<open>initData\<close> values, beside
  an unrelated global; a platform whose network settles every request in the given way
  and whose parser knows the one document \<^verbatim>\<open>{"ok":true}\<close>.
\<close>

definition stub_window :: "jsval \<Rightarrow> jsval \<Rightarrow> props" where
  "stub_window rdy d =
     [(''document'', JObj [(''cookie'', JStr ''user_id=7'')]),
      (''Telegram'', JObj [(''WebApp'', JObj [(''ready'', rdy), (''initData'', d)])])]"

definition stub_parse :: "string \<Rightarrow> jsval + jsval" where
  \<open>stub_parse s =
     (if s = ''{"ok":true}'' then Inr (JObj [(''ok'', JBool True)])
      else Inl (JErr ''SyntaxError'' ''Unexpected token''))\<close>

definition stub_platform :: "response settled \<Rightarrow> platform" where
  "stub_platform r = \<lparr>network = (\<lambda>req. r), JSON_parse = stub_parse\<rparr>"

section \<open>How a run unfolds\<close>

lemma api_not_found_eq: "api_not_found w = Inr (\<not> truthy (host_bridge w))"
proof (cases "map_of w ''Telegram''")
  case None
  then show ?thesis
    by (simp add: api_not_found_def host_bridge_def own_prop_def)
next
  case (Some t)
  then show ?thesis
    by (cases t) (simp_all add: api_not_found_def host_bridge_def own_prop_def lookup_global_def)
qed

lemma web_app_eq: "truthy (host_bridge w) \<Longrightarrow> web_app w = Inr (host_bridge w)"
proof (cases "map_of w ''Telegram''")
  case None
  assume "truthy (host_bridge w)"
  with None show ?thesis by (simp add: host_bridge_def)
next
  case (Some t)
  assume "truthy (host_bridge w)"
  with Some show ?thesis
    by (cases t) (simp_all add: host_bridge_def web_app_def lookup_global_def)
qed

lemma telegram_auth_absent:
  "\<not> truthy (host_bridge w) \<Longrightarrow>
   telegram_auth p w = ([ConsoleWarn [JStr ''Telegram WebApp API not found'']], Returned)"
  by (simp add: telegram_auth_def api_not_found_eq)

lemma truthy_get_prop: "truthy d \<Longrightarrow> \<exists>l. get_prop d k = Inr l"
  by (cases d) simp_all

lemma no_init_data_eq:
  "get_prop tg ''initData'' = Inr d \<Longrightarrow> no_init_data tg = Inr (empty_payload d)"
proof (cases "truthy d")
  case False
  assume "get_prop tg ''initData'' = Inr d"
  with False show ?thesis by (simp add: no_init_data_def empty_payload_def)
next
  case True
  assume g: "get_prop tg ''initData'' = Inr d"
  from True obtain l where l: "get_prop d ''length'' = Inr l"
    using truthy_get_prop by blast
  from True g l show ?thesis
    by (simp add: no_init_data_def empty_payload_def strict_eq_num_def)
qed

lemma auth_chain_rejected:
  "network p req = Rejected e \<Longrightarrow>
   auth_chain p req = ([Fetch req, ConsoleError [JStr ''Telegram auth failed'', e]], Fulfilled JUndefined)"
  by (simp add: auth_chain_def fetch_def promise_then_def promise_catch_def on_error_def)

lemma auth_chain_not_ok:
  "network p req = Fulfilled resp \<Longrightarrow> \<not> ok resp \<Longrightarrow>
   auth_chain p req =
     ([Fetch req, ConsoleError [JStr ''Telegram auth failed'', JErr ''Error'' (body_text resp)]],
      Fulfilled JUndefined)"
  by (simp add: auth_chain_def fetch_def promise_then_def promise_catch_def on_error_def
      on_response_def text_of_def)

lemma auth_chain_bad_json:
  "network p req = Fulfilled resp \<Longrightarrow> ok resp \<Longrightarrow> JSON_parse p (body_text resp) = Inl e \<Longrightarrow>
   auth_chain p req =
     ([Fetch req, ConsoleError [JStr ''Telegram auth failed'', e]], Fulfilled JUndefined)"
  by (simp add: auth_chain_def fetch_def promise_then_def promise_catch_def on_error_def
      on_response_def json_of_def)

lemma auth_chain_ok:
  "network p req = Fulfilled resp \<Longrightarrow> ok resp \<Longrightarrow> JSON_parse p (body_text resp) = Inr v \<Longrightarrow>
   auth_chain p req =
     ([Fetch req, ConsoleLog [JStr ''Telegram auth OK'', v]], Fulfilled JUndefined)"
  by (simp add: auth_chain_def fetch_def promise_then_def promise_catch_def on_data_def
      on_response_def json_of_def)

lemma auth_chain_shape: "\<exists>e. fst (auth_chain p req) = [Fetch req, e] \<and> is_console e"
proof (cases "network p req")
  case (Rejected e)
  then show ?thesis by (simp add: auth_chain_rejected)
next
  case (Fulfilled resp)
  show ?thesis
  proof (cases "ok resp")
    case False
    with Fulfilled show ?thesis by (simp add: auth_chain_not_ok)
  next
    case True
    with Fulfilled show ?thesis
      by (cases "JSON_parse p (body_text resp)") (simp_all add: auth_chain_bad_json auth_chain_ok)
  qed
qed

lemma telegram_auth_truthy:
  "truthy (host_bridge w) \<Longrightarrow>
   telegram_auth p w =
     (case call_method (host_bridge w) ''ready'' of
        Inl e \<Rightarrow> ([], Uncaught e)
      | Inr r \<Rightarrow>
          (case get_prop (host_bridge w) ''initData'' of
             Inl e \<Rightarrow> ([ReadyCall], Uncaught e)
           | Inr d \<Rightarrow>
               if empty_payload d
               then ([ReadyCall, ConsoleWarn [JStr ''No initData from Telegram'']], Returned)
               else (ReadyCall # fst (auth_chain p (post_request d)), Returned)))"
proof -
  assume t: "truthy (host_bridge w)"
  then obtain d where d: "get_prop (host_bridge w) ''initData'' = Inr d"
    using truthy_get_prop by blast
  from t d show ?thesis
    by (simp add: telegram_auth_def api_not_found_eq web_app_eq no_init_data_eq auth_request_def
        split: sum.splits)
qed

lemma call_ready_obj:
  "callable (own_prop b ''ready'') \<Longrightarrow> \<exists>r. call_method (JObj b) ''ready'' = Inr r"
  by (cases "own_prop b ''ready''") (simp_all add: callable_def call_method_def)

lemma telegram_auth_present:
  assumes "host_bridge w = JObj b" and "callable (own_prop b ''ready'')"
  shows "telegram_auth p w =
     (if empty_payload (own_prop b ''initData'')
      then ([ReadyCall, ConsoleWarn [JStr ''No initData from Telegram'']], Returned)
      else (ReadyCall # fst (auth_chain p (post_request (own_prop b ''initData''))), Returned))"
proof -
  from assms(2) obtain r where "call_method (JObj b) ''ready'' = Inr r"
    using call_ready_obj by blast
  with assms(1) show ?thesis
    by (simp add: telegram_auth_truthy)
qed

lemma call_method_only_obj:
  "call_method v k = Inr r \<Longrightarrow> k \<noteq> ''length'' \<Longrightarrow> \<exists>b. v = JObj b \<and> callable (own_prop b k)"
  by (cases v) (auto simp: call_method_def callable_def split: jsval.splits if_splits)

lemma call_method_exn: "call_method v k = Inl e \<Longrightarrow> e = TypeError"
  by (cases v) (auto simp: call_method_def split: jsval.splits if_splits)

text \<open>
  A truthy value at \<^verbatim>\<open>window.Telegram.WebApp\<close> that exposes no \<^verbatim>\<open>ready\<close> function is not a
  bridge object: the call \<^verbatim>\<open>tg.ready()\<close> throws, nothing catches the exception, and the
  run has no effect at all.
\<close>

lemma telegram_auth_no_ready:
  assumes "truthy (host_bridge w)"
    and "\<not> (\<exists>b. host_bridge w = JObj b \<and> callable (own_prop b ''ready''))"
  shows "telegram_auth p w = ([], Uncaught TypeError)"
proof (cases "call_method (host_bridge w) ''ready''")
  case (Inl e)
  then have "e = TypeError" by (rule call_method_exn)
  with Inl assms(1) show ?thesis by (simp add: telegram_auth_truthy)
next
  case (Inr r)
  then have "\<exists>b. host_bridge w = JObj b \<and> callable (own_prop b ''ready'')"
    using call_method_only_obj by fastforce
  with assms(2) show ?thesis by simp
qed

text \<open>Every run has one of four shapes.\<close>

lemma telegram_auth_cases:
  "telegram_auth p w = ([ConsoleWarn [JStr ''Telegram WebApp API not found'']], Returned)
     \<and> \<not> truthy (host_bridge w)
   \<or> telegram_auth p w = ([], Uncaught TypeError) \<and> truthy (host_bridge w)
   \<or> (\<exists>b. host_bridge w = JObj b \<and> callable (own_prop b ''ready'')
         \<and> empty_payload (own_prop b ''initData'')
         \<and> telegram_auth p w =
             ([ReadyCall, ConsoleWarn [JStr ''No initData from Telegram'']], Returned))
   \<or> (\<exists>b e. host_bridge w = JObj b \<and> callable (own_prop b ''ready'')
         \<and> \<not> empty_payload (own_prop b ''initData'') \<and> is_console e
         \<and> telegram_auth p w =
             ([ReadyCall, Fetch (post_request (own_prop b ''initData'')), e], Returned))"
proof (cases "truthy (host_bridge w)")
  case False
  then show ?thesis by (simp add: telegram_auth_absent)
next
  case True
  show ?thesis
  proof (cases "call_method (host_bridge w) ''ready''")
    case (Inl x)
    then have "x = TypeError" by (rule call_method_exn)
    with Inl True show ?thesis by (simp add: telegram_auth_truthy)
  next
    case (Inr r)
    then obtain b where b: "host_bridge w = JObj b" and c: "callable (own_prop b ''ready'')"
      using call_method_only_obj by fastforce
    obtain e where e: "fst (auth_chain p (post_request (own_prop b ''initData''))) =
        [Fetch (post_request (own_prop b ''initData'')), e]" and k: "is_console e"
      using auth_chain_shape by blast
    show ?thesis
    proof (cases "empty_payload (own_prop b ''initData'')")
      case True
      with b c show ?thesis by (simp add: telegram_auth_present)
    next
      case False
      with b c e k show ?thesis by (simp add: telegram_auth_present)
    qed
  qed
qed

lemma console_not_fetch: "is_console e \<Longrightarrow> \<not> is_fetch e"
  by (cases e) simp_all

lemma console_not_ready: "is_console e \<Longrightarrow> e \<noteq> ReadyCall"
  by (cases e) simp_all


text \<open>The definitions a run on a concrete environment unfolds.\<close>

lemmas run_defs =
  telegram_auth_def api_not_found_def web_app_def lookup_global_def own_prop_def
  call_method_def no_init_data_def strict_eq_num_def auth_request_def auth_chain_def
  fetch_def promise_then_def promise_catch_def on_response_def on_data_def on_error_def
  ok_def text_of_def json_of_def stub_window_def stub_platform_def stub_parse_def

lemma page_load_simps:
  "fst (page_load p s) = snd (telegram_auth p (global_object s))"
  "global_object (snd (page_load p s)) = global_object s"
  "performed (snd (page_load p s)) = performed s @ fst (telegram_auth p (global_object s))"
  by (simp_all add: page_load_def Let_def)

lemma fetches_of_request_run:
  assumes "host_bridge w = JObj b"
    and "callable (own_prop b ''ready'')"
    and "\<not> empty_payload (own_prop b ''initData'')"
  shows "filter is_fetch (fst (telegram_auth p w)) = [Fetch (post_request (own_prop b ''initData''))]"
proof -
  obtain e where e: "fst (auth_chain p (post_request (own_prop b ''initData''))) =
      [Fetch (post_request (own_prop b ''initData'')), e]" and k: "is_console e"
    using auth_chain_shape by blast
  from k have "\<not> is_fetch e" by (rule console_not_fetch)
  with assms e show ?thesis by (simp add: telegram_auth_present)
qed

section \<open>The request body\<close>

lemma serialize_init_data:
  \<open>JSON_stringify (JObj [(''init_data'', JStr X)]) =
     JStr (''{"init_data":"'' @ concat (map quote_char X) @ ''"}'')\<close>
  by (simp add: JSON_stringify_def quote_json_def quote_char_def hex_digit_def)

lemma quote_char_plain: "plain_char c \<Longrightarrow> quote_char c = [c]"
  by (auto simp: plain_char_def quote_char_def)

lemma concat_quote_plain: "list_all plain_char X \<Longrightarrow> concat (map quote_char X) = X"
  by (induction X) (simp_all add: quote_char_plain)

section \<open>The claims\<close>

text \<open>
  C1. In every environment whose bridge object (an object at \<^verbatim>\<open>window.Telegram.WebApp\<close>
  exposing \<^verbatim>\<open>ready()\<close>) holds a non-empty \<^verbatim>\<open>initData\<close> string \<open>X\<close>, and however the
  network answers, the run issues exactly one request: to
  \<^verbatim>\<open>/api/v1/auth/telegram-webapp\<close>, with method POST, the single header
  \<^verbatim>\<open>Content-Type: application/json\<close>, credentials \<^verbatim>\<open>include\<close>, and as body the JSON
  encoding of \<^verbatim>\<open>{init_data: X}\<close>. That encoding is \<^verbatim>\<open>{"init_data":"\<close>, the escaped code
  units of \<open>X\<close>, \<^verbatim>\<open>"}\<close>; where \<open>X\<close> needs no escaping it is \<^verbatim>\<open>{"init_data":"X"}\<close>.
\<close>

theorem one_post_request:
  assumes "host_bridge w = JObj b"
    and "callable (own_prop b ''ready'')"
    and "own_prop b ''initData'' = JStr X"
    and "X \<noteq> []"
  shows \<open>filter is_fetch (fst (telegram_auth p w)) =
      [Fetch \<lparr>url = ''/api/v1/auth/telegram-webapp'',
              http_method = ''POST'',
              headers = [(''Content-Type'', ''application/json'')],
              credentials = ''include'',
              body = JSON_stringify (JObj [(''init_data'', JStr X)])\<rparr>]
    \<and> JSON_stringify (JObj [(''init_data'', JStr X)]) =
        JStr (''{"init_data":"'' @ concat (map quote_char X) @ ''"}'')
    \<and> (list_all plain_char X \<longrightarrow>
        JSON_stringify (JObj [(''init_data'', JStr X)]) = JStr (''{"init_data":"'' @ X @ ''"}''))\<close>
proof -
  have ne: "\<not> empty_payload (JStr X)"
    using assms(4) by (simp add: empty_payload_def)
  obtain e where e: "fst (auth_chain p (post_request (JStr X))) = [Fetch (post_request (JStr X)), e]"
    and c: "is_console e"
    using auth_chain_shape by blast
  from c have nf: "\<not> is_fetch e" by (cases e) simp_all
  have "filter is_fetch (fst (telegram_auth p w)) = [Fetch (post_request (JStr X))]"
    using assms(1-3) ne e nf by (simp add: telegram_auth_present)
  then show ?thesis
    using serialize_init_data concat_quote_plain by (simp add: post_request_def)
qed

theorem one_post_request_witness:
  \<open>host_bridge (stub_window (JFun 0 JUndefined) (JStr ''X'')) =
      JObj [(''ready'', JFun 0 JUndefined), (''initData'', JStr ''X'')]
    \<and> filter is_fetch (fst (telegram_auth (stub_platform (Rejected JNull))
         (stub_window (JFun 0 JUndefined) (JStr ''X'')))) =
      [Fetch \<lparr>url = ''/api/v1/auth/telegram-webapp'',
              http_method = ''POST'',
              headers = [(''Content-Type'', ''application/json'')],
              credentials = ''include'',
              body = JStr ''{"init_data":"X"}''\<rparr>]\<close>
proof -
  let ?b = "[(''ready'', JFun 0 JUndefined), (''initData'', JStr ''X'')]"
  have h1: "host_bridge (stub_window (JFun 0 JUndefined) (JStr ''X'')) = JObj ?b"
    by (simp add: host_bridge_def stub_window_def own_prop_def)
  have h2: "callable (own_prop ?b ''ready'')"
    by (simp add: callable_def own_prop_def)
  have h3: "own_prop ?b ''initData'' = JStr ''X''"
    by (simp add: own_prop_def)
  have h4: "''X'' \<noteq> []" by simp
  have h5: "list_all plain_char ''X''" by (simp add: plain_char_def)
  note t = one_post_request [OF h1 h2 h3 h4, of "stub_platform (Rejected JNull)"]
  from t h5 have j: \<open>JSON_stringify (JObj [(''init_data'', JStr ''X'')]) =
      JStr (''{"init_data":"'' @ ''X'' @ ''"}'')\<close>
    by blast
  from t have f: "filter is_fetch (fst (telegram_auth (stub_platform (Rejected JNull))
         (stub_window (JFun 0 JUndefined) (JStr ''X'')))) =
      [Fetch \<lparr>url = ''/api/v1/auth/telegram-webapp'',
              http_method = ''POST'',
              headers = [(''Content-Type'', ''application/json'')],
              credentials = ''include'',
              body = JSON_stringify (JObj [(''init_data'', JStr ''X'')])\<rparr>]"
    by (rule conjunct1)
  show ?thesis
    unfolding f j using h1 by simp
qed

text \<open>
  C2. In every environment without a host bridge object (the path
  \<^verbatim>\<open>window.Telegram.WebApp\<close> is broken, or ends in \<^verbatim>\<open>undefined\<close>, \<^verbatim>\<open>null\<close> or any other falsy
  value), the run logs the warning \<^verbatim>\<open>Telegram WebApp API not found\<close>, does nothing else,
  and returns: in particular it issues no network request.
\<close>

theorem no_bridge_no_request:
  assumes "\<not> truthy (host_bridge w)"
  shows "telegram_auth p w = ([ConsoleWarn [JStr ''Telegram WebApp API not found'']], Returned)
    \<and> filter is_fetch (fst (telegram_auth p w)) = []"
  using assms by (simp add: telegram_auth_absent)

theorem no_bridge_no_request_witness:
  "host_bridge [(''document'', JObj [])] = JUndefined
   \<and> telegram_auth (stub_platform (Rejected JNull)) [(''document'', JObj [])] =
       ([ConsoleWarn [JStr ''Telegram WebApp API not found'']], Returned)"
proof -
  have h: "host_bridge [(''document'', JObj [])] = JUndefined"
    by (simp add: host_bridge_def)
  then have "\<not> truthy (host_bridge [(''document'', JObj [])])" by simp
  from no_bridge_no_request [OF this, of "stub_platform (Rejected JNull)"] h
  show ?thesis by simp
qed

text \<open>
  C3. In every environment whose bridge object (an object at \<^verbatim>\<open>window.Telegram.WebApp\<close>
  exposing \<^verbatim>\<open>ready()\<close>) holds the empty string as \<^verbatim>\<open>initData\<close>, the run calls \<^verbatim>\<open>ready()\<close>,
  logs the warning \<^verbatim>\<open>No initData from Telegram\<close>, does nothing else, and returns: it
  issues no network request.
\<close>

theorem empty_init_data_no_request:
  assumes "host_bridge w = JObj b"
    and "callable (own_prop b ''ready'')"
    and "own_prop b ''initData'' = JStr []"
  shows "telegram_auth p w =
      ([ReadyCall, ConsoleWarn [JStr ''No initData from Telegram'']], Returned)
    \<and> filter is_fetch (fst (telegram_auth p w)) = []"
  using assms by (simp add: telegram_auth_present empty_payload_def)

theorem empty_init_data_no_request_witness:
  "host_bridge (stub_window (JFun 0 JUndefined) (JStr [])) =
      JObj [(''ready'', JFun 0 JUndefined), (''initData'', JStr [])]
   \<and> telegram_auth (stub_platform (Rejected JNull)) (stub_window (JFun 0 JUndefined) (JStr [])) =
      ([ReadyCall, ConsoleWarn [JStr ''No initData from Telegram'']], Returned)"
proof -
  let ?b = "[(''ready'', JFun 0 JUndefined), (''initData'', JStr [])]"
  have h1: "host_bridge (stub_window (JFun 0 JUndefined) (JStr [])) = JObj ?b"
    by (simp add: host_bridge_def stub_window_def own_prop_def)
  have h2: "callable (own_prop ?b ''ready'')"
    by (simp add: callable_def own_prop_def)
  have h3: "own_prop ?b ''initData'' = JStr []"
    by (simp add: own_prop_def)
  from empty_init_data_no_request [OF h1 h2 h3, of "stub_platform (Rejected JNull)"] h1
  show ?thesis by simp
qed

text \<open>
  C4. Whenever the request is answered by a response whose status is outside 200..299,
  the first handler reads the body as text and rejects with an \<^verbatim>\<open>Error\<close> whose message is
  that text; the rejection skips the success handler and reaches the \<^verbatim>\<open>catch\<close> handler,
  which logs \<^verbatim>\<open>Telegram auth failed\<close> with that error to the console and settles the chain.
  The whole run is: \<^verbatim>\<open>ready()\<close>, the one request, the one error line; nothing is thrown
  out of the script and no second request is made.
\<close>

theorem failure_status_logged:
  assumes "host_bridge w = JObj b"
    and "callable (own_prop b ''ready'')"
    and "\<not> empty_payload (own_prop b ''initData'')"
    and "network p (post_request (own_prop b ''initData'')) = Fulfilled resp"
    and "status resp < 200 \<or> 299 < status resp"
  shows "on_response p resp = ([], Rejected (JErr ''Error'' (body_text resp)))
    \<and> telegram_auth p w =
        ([ReadyCall,
          Fetch (post_request (own_prop b ''initData'')),
          ConsoleError [JStr ''Telegram auth failed'', JErr ''Error'' (body_text resp)]],
         Returned)
    \<and> snd (auth_chain p (post_request (own_prop b ''initData''))) = Fulfilled JUndefined"
proof -
  from assms(5) have nok: "\<not> ok resp" by (auto simp: ok_def)
  then have "on_response p resp = ([], Rejected (JErr ''Error'' (body_text resp)))"
    by (simp add: on_response_def text_of_def)
  moreover from assms(1-4) nok have "telegram_auth p w =
        ([ReadyCall,
          Fetch (post_request (own_prop b ''initData'')),
          ConsoleError [JStr ''Telegram auth failed'', JErr ''Error'' (body_text resp)]],
         Returned)"
    by (simp add: telegram_auth_present auth_chain_not_ok)
  moreover from assms(4) nok
  have "snd (auth_chain p (post_request (own_prop b ''initData''))) = Fulfilled JUndefined"
    by (simp add: auth_chain_not_ok)
  ultimately show ?thesis by simp
qed

theorem failure_status_logged_witness:
  "telegram_auth (stub_platform (Fulfilled \<lparr>status = 401, body_text = ''invalid signature''\<rparr>))
       (stub_window (JFun 0 JUndefined) (JStr ''X'')) =
     ([ReadyCall,
       Fetch (post_request (JStr ''X'')),
       ConsoleError [JStr ''Telegram auth failed'', JErr ''Error'' ''invalid signature'']],
      Returned)"
proof -
  let ?b = "[(''ready'', JFun 0 JUndefined), (''initData'', JStr ''X'')]"
  let ?resp = "\<lparr>status = 401, body_text = ''invalid signature''\<rparr>"
  have h1: "host_bridge (stub_window (JFun 0 JUndefined) (JStr ''X'')) = JObj ?b"
    by (simp add: host_bridge_def stub_window_def own_prop_def)
  have h2: "callable (own_prop ?b ''ready'')"
    by (simp add: callable_def own_prop_def)
  have h3: "\<not> empty_payload (own_prop ?b ''initData'')"
    by (simp add: own_prop_def empty_payload_def)
  have h4: "network (stub_platform (Fulfilled ?resp)) (post_request (own_prop ?b ''initData'')) =
      Fulfilled ?resp"
    by (simp add: stub_platform_def)
  have h5: "status ?resp < 200 \<or> 299 < status ?resp" by simp
  from failure_status_logged [OF h1 h2 h3 h4 h5]
  show ?thesis by (simp add: own_prop_def)
qed

text \<open>
  C5. Whenever the request is answered by a response whose status is in 200..299, the
  first handler hands the body to the JSON parser; when the parser yields the value \<open>v\<close>,
  the success handler logs \<^verbatim>\<open>Telegram auth OK\<close> with \<open>v\<close>, and the whole run is \<^verbatim>\<open>ready()\<close>,
  the one request, that one log line: no further request is issued.
\<close>

theorem success_status_logged:
  assumes "host_bridge w = JObj b"
    and "callable (own_prop b ''ready'')"
    and "\<not> empty_payload (own_prop b ''initData'')"
    and "network p (post_request (own_prop b ''initData'')) = Fulfilled resp"
    and "200 \<le> status resp" and "status resp \<le> 299"
    and "JSON_parse p (body_text resp) = Inr v"
  shows "on_response p resp = ([], Fulfilled v)
    \<and> telegram_auth p w =
        ([ReadyCall,
          Fetch (post_request (own_prop b ''initData'')),
          ConsoleLog [JStr ''Telegram auth OK'', v]],
         Returned)
    \<and> filter is_fetch (fst (telegram_auth p w)) = [Fetch (post_request (own_prop b ''initData''))]"
proof -
  from assms(5,6) have k: "ok resp" by (simp add: ok_def)
  with assms(7) have "on_response p resp = ([], Fulfilled v)"
    by (simp add: on_response_def json_of_def)
  moreover from assms(1-4,7) k have "telegram_auth p w =
        ([ReadyCall,
          Fetch (post_request (own_prop b ''initData'')),
          ConsoleLog [JStr ''Telegram auth OK'', v]],
         Returned)"
    by (simp add: telegram_auth_present auth_chain_ok)
  ultimately show ?thesis by simp
qed

theorem success_status_logged_witness:
  \<open>telegram_auth (stub_platform (Fulfilled \<lparr>status = 200, body_text = ''{"ok":true}''\<rparr>))
       (stub_window (JFun 0 JUndefined) (JStr ''X'')) =
     ([ReadyCall,
       Fetch (post_request (JStr ''X'')),
       ConsoleLog [JStr ''Telegram auth OK'', JObj [(''ok'', JBool True)]]],
      Returned)\<close>
proof -
  let ?b = "[(''ready'', JFun 0 JUndefined), (''initData'', JStr ''X'')]"
  let ?resp = \<open>\<lparr>status = 200, body_text = ''{"ok":true}''\<rparr>\<close>
  have h1: "host_bridge (stub_window (JFun 0 JUndefined) (JStr ''X'')) = JObj ?b"
    by (simp add: host_bridge_def stub_window_def own_prop_def)
  have h2: "callable (own_prop ?b ''ready'')"
    by (simp add: callable_def own_prop_def)
  have h3: "\<not> empty_payload (own_prop ?b ''initData'')"
    by (simp add: own_prop_def empty_payload_def)
  have h4: "network (stub_platform (Fulfilled ?resp)) (post_request (own_prop ?b ''initData'')) =
      Fulfilled ?resp"
    by (simp add: stub_platform_def)
  have h5: "200 \<le> status ?resp" and h6: "status ?resp \<le> 299" by simp_all
  have h7: "JSON_parse (stub_platform (Fulfilled ?resp)) (body_text ?resp) =
      Inr (JObj [(''ok'', JBool True)])"
    by (simp add: stub_platform_def stub_parse_def)
  from success_status_logged [OF h1 h2 h3 h4 h5 h6 h7]
  show ?thesis by (simp add: own_prop_def)
qed

text \<open>
  C10. Whenever the request is answered by a response whose status is in 200..299 but
  whose body the JSON parser rejects with the error \<open>e\<close>, the success handler does not
  run: no \<^verbatim>\<open>Telegram auth OK\<close> line is logged. The parse error reaches the same \<^verbatim>\<open>catch\<close>
  handler as every other failure and is logged as \<^verbatim>\<open>Telegram auth failed\<close> with \<open>e\<close>.
\<close>

theorem invalid_json_logged_as_failure:
  assumes "host_bridge w = JObj b"
    and "callable (own_prop b ''ready'')"
    and "\<not> empty_payload (own_prop b ''initData'')"
    and "network p (post_request (own_prop b ''initData'')) = Fulfilled resp"
    and "200 \<le> status resp" and "status resp \<le> 299"
    and "JSON_parse p (body_text resp) = Inl e"
  shows "telegram_auth p w =
        ([ReadyCall,
          Fetch (post_request (own_prop b ''initData'')),
          ConsoleError [JStr ''Telegram auth failed'', e]],
         Returned)
    \<and> ConsoleLog [JStr ''Telegram auth OK'', d] \<notin> set (fst (telegram_auth p w))"
proof -
  from assms(5,6) have k: "ok resp" by (simp add: ok_def)
  with assms(1-4,7) have "telegram_auth p w =
        ([ReadyCall,
          Fetch (post_request (own_prop b ''initData'')),
          ConsoleError [JStr ''Telegram auth failed'', e]],
         Returned)"
    by (simp add: telegram_auth_present auth_chain_bad_json)
  then show ?thesis by simp
qed

theorem invalid_json_logged_as_failure_witness:
  "telegram_auth (stub_platform (Fulfilled \<lparr>status = 204, body_text = ''''\<rparr>))
       (stub_window (JFun 0 JUndefined) (JStr ''X'')) =
     ([ReadyCall,
       Fetch (post_request (JStr ''X'')),
       ConsoleError [JStr ''Telegram auth failed'', JErr ''SyntaxError'' ''Unexpected token'']],
      Returned)"
proof -
  let ?b = "[(''ready'', JFun 0 JUndefined), (''initData'', JStr ''X'')]"
  let ?resp = "\<lparr>status = 204, body_text = ''''\<rparr>"
  have h1: "host_bridge (stub_window (JFun 0 JUndefined) (JStr ''X'')) = JObj ?b"
    by (simp add: host_bridge_def stub_window_def own_prop_def)
  have h2: "callable (own_prop ?b ''ready'')"
    by (simp add: callable_def own_prop_def)
  have h3: "\<not> empty_payload (own_prop ?b ''initData'')"
    by (simp add: own_prop_def empty_payload_def)
  have h4: "network (stub_platform (Fulfilled ?resp)) (post_request (own_prop ?b ''initData'')) =
      Fulfilled ?resp"
    by (simp add: stub_platform_def)
  have h5: "200 \<le> status ?resp" and h6: "status ?resp \<le> 299" by simp_all
  have h7: "JSON_parse (stub_platform (Fulfilled ?resp)) (body_text ?resp) =
      Inl (JErr ''SyntaxError'' ''Unexpected token'')"
    by (simp add: stub_platform_def stub_parse_def)
  from invalid_json_logged_as_failure [OF h1 h2 h3 h4 h5 h6 h7]
  show ?thesis by (simp add: own_prop_def)
qed




text \<open>
  C7. Two page loads in sequence, in a browser whose bridge object holds a non-empty
  \<^verbatim>\<open>initData\<close> string \<open>X\<close>: the second load starts in the state the first one left. However
  the network answers each of them, the two loads add exactly two requests, both the
  request for \<open>X\<close>. The first load leaves the global object as it found it, and under the
  same platform behaviour the second load ends as the first did and performs the same
  effects again: nothing of the first load reaches the second.
\<close>

theorem two_loads_two_requests:
  assumes "host_bridge (global_object s) = JObj b"
    and "callable (own_prop b ''ready'')"
    and "own_prop b ''initData'' = JStr X"
    and "X \<noteq> []"
  shows "filter is_fetch (performed (snd (page_load q (snd (page_load p s))))) =
      filter is_fetch (performed s) @ [Fetch (post_request (JStr X)), Fetch (post_request (JStr X))]
    \<and> global_object (snd (page_load p s)) = global_object s
    \<and> fst (page_load p (snd (page_load p s))) = fst (page_load p s)
    \<and> performed (snd (page_load p (snd (page_load p s)))) =
        performed s @ fst (telegram_auth p (global_object s)) @ fst (telegram_auth p (global_object s))"
proof -
  from assms(3,4) have ne: "\<not> empty_payload (own_prop b ''initData'')"
    by (simp add: empty_payload_def)
  have f: "filter is_fetch (fst (telegram_auth p' (global_object s))) =
      [Fetch (post_request (JStr X))]" for p'
    using fetches_of_request_run [OF assms(1,2) ne, of p'] assms(3) by simp
  show ?thesis
    by (simp add: page_load_simps f)
qed

theorem two_loads_two_requests_witness:
  "filter is_fetch (performed (snd (page_load
       (stub_platform (Fulfilled \<lparr>status = 401, body_text = ''invalid signature''\<rparr>))
       (snd (page_load (stub_platform (Rejected JNull))
          \<lparr>global_object = stub_window (JFun 0 JUndefined) (JStr ''X''), performed = []\<rparr>))))) =
     [Fetch (post_request (JStr ''X'')), Fetch (post_request (JStr ''X''))]
   \<and> performed (snd (page_load (stub_platform (Rejected JNull))
       (snd (page_load (stub_platform (Rejected JNull))
          \<lparr>global_object = stub_window (JFun 0 JUndefined) (JStr ''X''), performed = []\<rparr>)))) =
     [ReadyCall, Fetch (post_request (JStr ''X'')),
      ConsoleError [JStr ''Telegram auth failed'', JNull],
      ReadyCall, Fetch (post_request (JStr ''X'')),
      ConsoleError [JStr ''Telegram auth failed'', JNull]]"
proof -
  let ?s = "\<lparr>global_object = stub_window (JFun 0 JUndefined) (JStr ''X''), performed = []\<rparr>"
  let ?b = "[(''ready'', JFun 0 JUndefined), (''initData'', JStr ''X'')]"
  have h1: "host_bridge (global_object ?s) = JObj ?b"
    by (simp add: host_bridge_def stub_window_def own_prop_def)
  have h2: "callable (own_prop ?b ''ready'')"
    by (simp add: callable_def own_prop_def)
  have h3: "own_prop ?b ''initData'' = JStr ''X''"
    by (simp add: own_prop_def)
  have h4: "''X'' \<noteq> []" by simp
  have tr: "fst (telegram_auth (stub_platform (Rejected JNull)) (global_object ?s)) =
      [ReadyCall, Fetch (post_request (JStr ''X'')),
       ConsoleError [JStr ''Telegram auth failed'', JNull]]"
    by (simp add: run_defs)
  note t = two_loads_two_requests [OF h1 h2 h3 h4,
      of "stub_platform (Fulfilled \<lparr>status = 401, body_text = ''invalid signature''\<rparr>)"
         "stub_platform (Rejected JNull)"]
  from t have g1: "filter is_fetch (performed (snd (page_load
       (stub_platform (Fulfilled \<lparr>status = 401, body_text = ''invalid signature''\<rparr>))
       (snd (page_load (stub_platform (Rejected JNull)) ?s))))) =
     filter is_fetch (performed ?s) @ [Fetch (post_request (JStr ''X'')), Fetch (post_request (JStr ''X''))]"
    by (rule conjunct1)
  from t have g2: "performed (snd (page_load (stub_platform (Rejected JNull))
       (snd (page_load (stub_platform (Rejected JNull)) ?s)))) =
     performed ?s @ fst (telegram_auth (stub_platform (Rejected JNull)) (global_object ?s))
       @ fst (telegram_auth (stub_platform (Rejected JNull)) (global_object ?s))"
    by blast
  from g1 g2 show ?thesis
    unfolding tr by simp
qed

text \<open>
  C8, as stated: the effects of a run are network requests and console lines only. This
  fails in every run that gets past the first guard, because the run calls the bridge's
  \<^verbatim>\<open>ready()\<close>, a call made for its effect on the host: with an empty \<^verbatim>\<open>initData\<close> the
  effects are that call and one warning.
\<close>

theorem only_network_and_console_counterexample:
  "\<not> list_all network_or_console
      (fst (telegram_auth (stub_platform (Rejected JNull))
         (stub_window (JFun 0 JUndefined) (JStr []))))"
  by (simp add: run_defs network_or_console_def)

text \<open>
  C8, amended: in every run the effects are at most one \<^verbatim>\<open>ready()\<close> call on the bridge, at
  most one network request, and console lines. No effect is a change to the document, an
  assignment to a property of the bridge, or an access to the cookie.
\<close>

theorem effects_are_ready_request_console:
  "list_all ready_network_or_console (fst (telegram_auth p w))
   \<and> length (filter is_fetch (fst (telegram_auth p w))) \<le> 1
   \<and> length (filter (\<lambda>e. e = ReadyCall) (fst (telegram_auth p w))) \<le> 1
   \<and> DomMutation \<notin> set (fst (telegram_auth p w))
   \<and> BridgeWrite k v \<notin> set (fst (telegram_auth p w))
   \<and> CookieAccess \<notin> set (fst (telegram_auth p w))"
proof -
  have shape: "list_all ready_network_or_console (fst (telegram_auth p w))
      \<and> length (filter is_fetch (fst (telegram_auth p w))) \<le> 1
      \<and> length (filter (\<lambda>e. e = ReadyCall) (fst (telegram_auth p w))) \<le> 1"
    using telegram_auth_cases [of p w]
    by (auto simp: ready_network_or_console_def console_not_fetch console_not_ready)
  have none: "e \<in> set (fst (telegram_auth p w)) \<Longrightarrow> ready_network_or_console e" for e
    using shape by (simp add: list_all_iff)
  have d: "DomMutation \<notin> set (fst (telegram_auth p w))"
    using none [of DomMutation] by (auto simp: ready_network_or_console_def)
  have b: "BridgeWrite k v \<notin> set (fst (telegram_auth p w))"
    using none [of "BridgeWrite k v"] by (auto simp: ready_network_or_console_def)
  have c: "CookieAccess \<notin> set (fst (telegram_auth p w))"
    using none [of CookieAccess] by (auto simp: ready_network_or_console_def)
  from shape d b c show ?thesis by blast
qed

theorem effects_are_ready_request_console_witness:
  "list_all ready_network_or_console
      (fst (telegram_auth (stub_platform (Rejected JNull))
         (stub_window (JFun 0 JUndefined) (JStr ''X''))))
   \<and> length (filter is_fetch
      (fst (telegram_auth (stub_platform (Rejected JNull))
         (stub_window (JFun 0 JUndefined) (JStr ''X''))))) \<le> 1
   \<and> fst (telegram_auth (stub_platform (Rejected JNull))
         (stub_window (JFun 0 JUndefined) (JStr ''X''))) =
       [ReadyCall, Fetch (post_request (JStr ''X'')),
        ConsoleError [JStr ''Telegram auth failed'', JNull]]"
proof -
  let ?P = "stub_platform (Rejected JNull)"
  let ?w = "stub_window (JFun 0 JUndefined) (JStr ''X'')"
  note t = effects_are_ready_request_console [of ?P ?w]
  from t have g1: "list_all ready_network_or_console (fst (telegram_auth ?P ?w))"
    by (rule conjunct1)
  from t have g2: "length (filter is_fetch (fst (telegram_auth ?P ?w))) \<le> 1"
    by blast
  have g3: "fst (telegram_auth ?P ?w) =
      [ReadyCall, Fetch (post_request (JStr ''X'')),
       ConsoleError [JStr ''Telegram auth failed'', JNull]]"
    by (simp add: run_defs)
  from g1 g2 g3 show ?thesis by (intro conjI)
qed

text \<open>
  C9. (1) Reading \<^verbatim>\<open>.length\<close> of \<^verbatim>\<open>undefined\<close> would throw a TypeError, but the second guard
  never gets there: where the bridge object has no \<^verbatim>\<open>initData\<close> field, or the field holds
  \<^verbatim>\<open>undefined\<close>, the guard evaluates to true without an exception, and the run is the one
  of an empty payload: \<^verbatim>\<open>ready()\<close>, the warning, a normal return, no request.
  (2) The first guard needs both levels of the path: where the global \<^verbatim>\<open>Telegram\<close> is
  missing, or it is an object without a \<^verbatim>\<open>WebApp\<close> field, the guard evaluates to true
  without an exception and the run is the one warning of the missing environment.
\<close>

theorem missing_fields_take_guard_paths:
  "get_prop JUndefined ''length'' = Inl TypeError
   \<and> (host_bridge w = JObj b \<and> callable (own_prop b ''ready'')
        \<and> (map_of b ''initData'' = None \<or> map_of b ''initData'' = Some JUndefined) \<longrightarrow>
       no_init_data (JObj b) = Inr True
       \<and> telegram_auth p w =
           ([ReadyCall, ConsoleWarn [JStr ''No initData from Telegram'']], Returned))
   \<and> (map_of w0 ''Telegram'' = None
        \<or> map_of w0 ''Telegram'' = Some (JObj t) \<and> map_of t ''WebApp'' = None \<longrightarrow>
       api_not_found w0 = Inr True
       \<and> telegram_auth p w0 =
           ([ConsoleWarn [JStr ''Telegram WebApp API not found'']], Returned))"
proof -
  have c1: "host_bridge w = JObj b \<and> callable (own_prop b ''ready'')
        \<and> (map_of b ''initData'' = None \<or> map_of b ''initData'' = Some JUndefined) \<longrightarrow>
       no_init_data (JObj b) = Inr True
       \<and> telegram_auth p w =
           ([ReadyCall, ConsoleWarn [JStr ''No initData from Telegram'']], Returned)"
  proof
    assume a: "host_bridge w = JObj b \<and> callable (own_prop b ''ready'')
        \<and> (map_of b ''initData'' = None \<or> map_of b ''initData'' = Some JUndefined)"
    then have u: "own_prop b ''initData'' = JUndefined"
      by (auto simp: own_prop_def)
    then have "no_init_data (JObj b) = Inr True"
      by (simp add: no_init_data_def)
    moreover from a u have "telegram_auth p w =
           ([ReadyCall, ConsoleWarn [JStr ''No initData from Telegram'']], Returned)"
      by (simp add: telegram_auth_present empty_payload_def)
    ultimately show "no_init_data (JObj b) = Inr True
       \<and> telegram_auth p w =
           ([ReadyCall, ConsoleWarn [JStr ''No initData from Telegram'']], Returned)"
      by simp
  qed
  have c2: "map_of w0 ''Telegram'' = None
        \<or> map_of w0 ''Telegram'' = Some (JObj t) \<and> map_of t ''WebApp'' = None \<longrightarrow>
       api_not_found w0 = Inr True
       \<and> telegram_auth p w0 =
           ([ConsoleWarn [JStr ''Telegram WebApp API not found'']], Returned)"
  proof
    assume "map_of w0 ''Telegram'' = None
        \<or> map_of w0 ''Telegram'' = Some (JObj t) \<and> map_of t ''WebApp'' = None"
    then have "host_bridge w0 = JUndefined"
      by (auto simp: host_bridge_def own_prop_def)
    then show "api_not_found w0 = Inr True
       \<and> telegram_auth p w0 =
           ([ConsoleWarn [JStr ''Telegram WebApp API not found'']], Returned)"
      by (simp add: api_not_found_eq telegram_auth_absent)
  qed
  from c1 c2 show ?thesis by simp
qed

theorem missing_fields_take_guard_paths_witness:
  "telegram_auth (stub_platform (Rejected JNull))
      [(''Telegram'', JObj [(''WebApp'', JObj [(''ready'', JFun 0 JUndefined)])])] =
     ([ReadyCall, ConsoleWarn [JStr ''No initData from Telegram'']], Returned)
   \<and> telegram_auth (stub_platform (Rejected JNull)) (stub_window (JFun 0 JUndefined) JUndefined) =
     ([ReadyCall, ConsoleWarn [JStr ''No initData from Telegram'']], Returned)
   \<and> telegram_auth (stub_platform (Rejected JNull)) [] =
     ([ConsoleWarn [JStr ''Telegram WebApp API not found'']], Returned)
   \<and> telegram_auth (stub_platform (Rejected JNull)) [(''Telegram'', JObj [])] =
     ([ConsoleWarn [JStr ''Telegram WebApp API not found'']], Returned)"
proof -
  let ?P = "stub_platform (Rejected JNull)"
  let ?f = "JFun 0 JUndefined"
  let ?w1 = "[(''Telegram'', JObj [(''WebApp'', JObj [(''ready'', ?f)])])]"
  let ?b1 = "[(''ready'', ?f)]"
  let ?w2 = "stub_window ?f JUndefined"
  let ?b2 = "[(''ready'', ?f), (''initData'', JUndefined)]"
  have h1: "host_bridge ?w1 = JObj ?b1 \<and> callable (own_prop ?b1 ''ready'')
      \<and> (map_of ?b1 ''initData'' = None \<or> map_of ?b1 ''initData'' = Some JUndefined)"
    by (simp add: host_bridge_def own_prop_def callable_def)
  have h2: "host_bridge ?w2 = JObj ?b2 \<and> callable (own_prop ?b2 ''ready'')
      \<and> (map_of ?b2 ''initData'' = None \<or> map_of ?b2 ''initData'' = Some JUndefined)"
    by (simp add: host_bridge_def stub_window_def own_prop_def callable_def)
  have h3: "map_of [] ''Telegram'' = None
      \<or> map_of [] ''Telegram'' = Some (JObj []) \<and> map_of [] ''WebApp'' = None"
    by simp
  have h4: "map_of [(''Telegram'', JObj [])] ''Telegram'' = None
      \<or> map_of [(''Telegram'', JObj [])] ''Telegram'' = Some (JObj []) \<and> map_of [] ''WebApp'' = None"
    by simp
  note t1 = missing_fields_take_guard_paths [of ?w1 ?b1 ?P "[]" "[]"]
  note t2 = missing_fields_take_guard_paths [of ?w2 ?b2 ?P "[(''Telegram'', JObj [])]" "[]"]
  from t1 h1 have g1: "telegram_auth ?P ?w1 =
      ([ReadyCall, ConsoleWarn [JStr ''No initData from Telegram'']], Returned)" by blast
  from t2 h2 have g2: "telegram_auth ?P ?w2 =
      ([ReadyCall, ConsoleWarn [JStr ''No initData from Telegram'']], Returned)" by blast
  from t1 h3 have g3: "telegram_auth ?P [] =
      ([ConsoleWarn [JStr ''Telegram WebApp API not found'']], Returned)" by blast
  from t2 h4 have g4: "telegram_auth ?P [(''Telegram'', JObj [])] =
      ([ConsoleWarn [JStr ''Telegram WebApp API not found'']], Returned)" by blast
  from g1 g2 g3 g4 show ?thesis by (intro conjI)
qed

end
